theory Spec2Isabelle
  imports Main
begin

section \<open>Python strings\<close>

text \<open>
  A Python \<open>str\<close> is modelled as a \<open>string\<close> whose characters are the code points
  below 256. \<open>isspace\<close> is \<open>str.isspace\<close> on one such character: the ASCII
  whitespace (tab to carriage return, the four separators \<open>0x1C\<close> to \<open>0x1F\<close>, space)
  and the two Latin-1 ones, \<open>0x85\<close> and \<open>0xA0\<close>. \<open>strip\<close> is \<open>str.strip()\<close> with no
  argument: whitespace is removed from both ends and nowhere else. The truth value
  of a string \<open>s\<close> (\<open>if s:\<close>) is \<open>s \<noteq> []\<close>.
\<close>

definition isspace :: "char \<Rightarrow> bool" where
  "isspace c \<longleftrightarrow>
     (let n = (of_char c :: nat)
      in (9 \<le> n \<and> n \<le> 13) \<or> (28 \<le> n \<and> n \<le> 32) \<or> n = 0x85 \<or> n = 0xA0)"

definition lstrip :: "string \<Rightarrow> string" where
  "lstrip s = dropWhile isspace s"

definition rstrip :: "string \<Rightarrow> string" where
  "rstrip s = rev (dropWhile isspace (rev s))"

definition strip :: "string \<Rightarrow> string" where
  "strip s = rstrip (lstrip s)"

section \<open>Payloads and frames\<close>

text \<open>
  A message payload (\<open>Any\<close>, \<open>dict[str, Any]\<close>) is a JSON-like value. A dict is an
  association list read with \<open>map_of\<close>; \<open>dict_get d k dflt\<close> is \<open>d.get(k, dflt)\<close>, and
  \<open>d.get(k)\<close> is \<open>dict_get d k JNull\<close> (\<open>None\<close> is \<open>JNull\<close>). Python's \<open>==\<close> between a
  payload value and a string literal holds exactly for \<open>JStr\<close> of that literal.
\<close>

datatype json =
    JNull
  | JBool bool
  | JInt int
  | JStr string
  | JList "json list"
  | JDict "(string \<times> json) list"

definition dict_get :: "(string \<times> json) list \<Rightarrow> string \<Rightarrow> json \<Rightarrow> json" where
  "dict_get d k dflt = (case map_of d k of None \<Rightarrow> dflt | Some v \<Rightarrow> v)"

type_synonym language = string

datatype direction = DOWNSTREAM | UPSTREAM

text \<open>
  The frames of the pipeline that the processors distinguish with \<open>isinstance\<close>.
  \<open>TranscriptionFrame text user_id timestamp language\<close> is a subclass of
  \<open>TextFrame\<close>; \<open>OpenAILLMContextFrame\<close> carries the \<open>messages\<close> of its context; every
  other frame is an \<open>OtherFrame\<close>.
\<close>

datatype frame =
    TranscriptionFrame string string string "language option"
  | TextFrame string
  | InputTransportMessageFrame json
  | OutputTransportMessageFrame json
  | LLMFullResponseStartFrame
  | LLMFullResponseEndFrame
  | OpenAILLMContextFrame "json list"
  | OtherFrame nat

fun isinstance_TextFrame :: "frame \<Rightarrow> bool" where
  "isinstance_TextFrame (TextFrame t) = True"
| "isinstance_TextFrame (TranscriptionFrame t u ts l) = True"
| "isinstance_TextFrame f = False"

fun frame_text :: "frame \<Rightarrow> string" where
  "frame_text (TextFrame t) = t"
| "frame_text (TranscriptionFrame t u ts l) = t"
| "frame_text f = []"

text \<open>
  A processor's \<open>process_frame\<close> returns the new state of the processor and the
  list of its \<open>push_frame\<close> calls, each a frame with the direction it is pushed in.
  A pipeline delivers its frames one at a time, in order: \<open>process_frames\<close> runs a
  processor over a list of inputs and collects what it pushes.
\<close>

type_synonym pushed = "(frame \<times> direction) list"

fun process_frames :: "('s \<Rightarrow> 'e \<Rightarrow> 's \<times> pushed) \<Rightarrow> 's \<Rightarrow> 'e list \<Rightarrow> 's \<times> pushed" where
  "process_frames step s [] = (s, [])"
| "process_frames step s (e # es) =
     (case step s e of (s', out) \<Rightarrow>
        (case process_frames step s' es of (s'', outs) \<Rightarrow> (s'', out @ outs)))"

section \<open>TranscriptionBufferProcessor\<close>

record buffer_state =
  buffer :: string
  last_user_id :: string
  last_language :: "language option"

definition TranscriptionBufferProcessor_init :: buffer_state where
  "TranscriptionBufferProcessor_init =
     \<lparr>buffer = [], last_user_id = ''user'', last_language = None\<rparr>"

text \<open>
  The message type of a transport message, as \<open>process_frame\<close> extracts it:
  \<open>None\<close> (\<open>JNull\<close>) unless the message is a dict.
\<close>

definition message_type :: "json \<Rightarrow> json" where
  "message_type message =
     (case message of
        JDict m \<Rightarrow>
          (let outer_type = dict_get m ''type'' JNull
           in if outer_type = JStr ''client-message''
              then (case dict_get m ''data'' (JDict []) of
                      JDict data \<Rightarrow> dict_get data ''t'' JNull
                    | _ \<Rightarrow> JNull)
              else outer_type)
      | _ \<Rightarrow> JNull)"

text \<open>
  \<open>now\<close> is the value of \<open>datetime.now(UTC).isoformat()\<close> at the call.
\<close>

definition TranscriptionBufferProcessor_process_frame ::
  "string \<Rightarrow> buffer_state \<Rightarrow> frame \<Rightarrow> direction \<Rightarrow> buffer_state \<times> pushed" where
  "TranscriptionBufferProcessor_process_frame now s frame dir =
     (case frame of
        TranscriptionFrame text' uid ts lang \<Rightarrow>
          (if text' \<noteq> []
           then (s\<lparr>buffer := buffer s @ text', last_user_id := uid, last_language := lang\<rparr>, [])
           else (s, []))
      | InputTransportMessageFrame message \<Rightarrow>
          (let mt = message_type message
           in if mt = JStr ''start-recording''
              then (s\<lparr>buffer := [], last_user_id := ''user'', last_language := None\<rparr>, [])
              else if mt = JStr ''stop-recording''
              then (if strip (buffer s) \<noteq> []
                    then (s\<lparr>buffer := []\<rparr>,
                          [(TranscriptionFrame (strip (buffer s)) (last_user_id s) now
                              (last_language s), dir)])
                    else (s, []))
              else (s, [(frame, dir)]))
      | _ \<Rightarrow> (s, [(frame, dir)]))"

text \<open>One input of the buffer: the time of the call, the frame and its direction.\<close>

definition buffer_step :: "buffer_state \<Rightarrow> string \<times> frame \<times> direction \<Rightarrow> buffer_state \<times> pushed" where
  "buffer_step s e = (case e of (now, frame, dir) \<Rightarrow>
     TranscriptionBufferProcessor_process_frame now s frame dir)"

text \<open>The two envelopes of a control signal: nested in a client message, and flat.\<close>

definition nested_signal :: "string \<Rightarrow> json" where
  "nested_signal sig =
     JDict [(''type'', JStr ''client-message''),
            (''data'', JDict [(''t'', JStr sig), (''d'', JDict [])])]"

definition flat_signal :: "string \<Rightarrow> json" where
  "flat_signal sig = JDict [(''type'', JStr sig)]"

text \<open>
  The extraction of the control signal in the words of the specification
  (\<open>extractSignal(envelope) -> optional string\<close>): the nested form is checked first,
  where the outer \<open>type\<close> is \<open>client-message\<close> and the signal is the field \<open>t\<close> of the
  nested object \<open>data\<close>; otherwise the signal is the outer \<open>type\<close>. A field that
  is absent gives no signal.
\<close>

definition extractSignal :: "(string \<times> json) list \<Rightarrow> json option" where
  "extractSignal envelope =
     (if map_of envelope ''type'' = Some (JStr ''client-message'')
      then (case map_of envelope ''data'' of
              Some (JDict data) \<Rightarrow> map_of data ''t''
            | _ \<Rightarrow> None)
      else map_of envelope ''type'')"

text \<open>Reading the inputs of a run: the frame of an input and the fields of a fragment.\<close>

definition event_frame :: "string \<times> frame \<times> direction \<Rightarrow> frame" where
  "event_frame e = fst (snd e)"

fun isinstance_TranscriptionFrame :: "frame \<Rightarrow> bool" where
  "isinstance_TranscriptionFrame (TranscriptionFrame t u ts l) = True"
| "isinstance_TranscriptionFrame f = False"

fun frame_user_id :: "frame \<Rightarrow> string" where
  "frame_user_id (TranscriptionFrame t u ts l) = u"
| "frame_user_id f = []"

fun frame_language :: "frame \<Rightarrow> language option" where
  "frame_language (TranscriptionFrame t u ts l) = l"
| "frame_language f = None"

text \<open>
  The fragments of a run whose metadata the buffer records: those with a text
  that is not empty.
\<close>

definition recorded :: "(string \<times> frame \<times> direction) list \<Rightarrow> frame list" where
  "recorded evs = filter (\<lambda>f. frame_text f \<noteq> []) (map event_frame evs)"

section \<open>TranscriptionToLLMConverter\<close>

definition newline :: string where
  "newline = [CHR 0x0A]"

definition dquote :: string where
  "dquote = [CHR 0x22]"

definition CLEANUP_SYSTEM_PROMPT :: string where
  "CLEANUP_SYSTEM_PROMPT =
     ''You are a dictation cleanup assistant. Your task is to clean up transcribed speech.''
     @ newline @ newline
     @ ''Rules:'' @ newline
     @ ''- Remove filler words (um, uh, like, you know, basically, actually, literally, sort of, kind of)''
     @ newline
     @ ''- Fix grammar and punctuation'' @ newline
     @ ''- Capitalize sentences properly'' @ newline
     @ ''- Keep the original meaning and tone intact'' @ newline
     @ ''- Do NOT add any new information or change the intent'' @ newline
     @ ''- Output ONLY the cleaned text, nothing else - no explanations, no quotes, no prefixes''
     @ newline @ newline
     @ ''Example:'' @ newline
     @ ''Input: '' @ dquote
     @ ''um so basically I was like thinking we should uh you know update the readme file''
     @ dquote @ newline
     @ ''Output: I was thinking we should update the readme file.''"

text \<open>The \<open>messages\<close> of the context that the converter builds for a transcript.\<close>

definition cleanup_messages :: "string \<Rightarrow> json list" where
  "cleanup_messages text' =
     [JDict [(''role'', JStr ''system''), (''content'', JStr CLEANUP_SYSTEM_PROMPT)],
      JDict [(''role'', JStr ''user''), (''content'', JStr text')]]"

text \<open>The converter has no state of its own: the result is what it pushes.\<close>

definition TranscriptionToLLMConverter_process_frame :: "frame \<Rightarrow> direction \<Rightarrow> pushed" where
  "TranscriptionToLLMConverter_process_frame frame dir =
     (case frame of
        TranscriptionFrame text' uid ts lang \<Rightarrow>
          (if text' \<noteq> [] \<and> strip text' \<noteq> []
           then [(OpenAILLMContextFrame (cleanup_messages text'), dir)]
           else [])
      | _ \<Rightarrow> [(frame, dir)])"

section \<open>LLMResponseToRTVIConverter\<close>

record aggregator_state =
  accumulator :: string
  is_accumulating :: bool

definition LLMResponseToRTVIConverter_init :: aggregator_state where
  "LLMResponseToRTVIConverter_init = \<lparr>accumulator = [], is_accumulating = False\<rparr>"

definition rtvi_message :: "string \<Rightarrow> json" where
  "rtvi_message cleaned_text =
     JDict [(''label'', JStr ''rtvi-ai''),
            (''type'', JStr ''server-message''),
            (''data'', JDict [(''type'', JStr ''transcript''), (''text'', JStr cleaned_text)])]"

definition LLMResponseToRTVIConverter_process_frame ::
  "aggregator_state \<Rightarrow> frame \<Rightarrow> direction \<Rightarrow> aggregator_state \<times> pushed" where
  "LLMResponseToRTVIConverter_process_frame s frame dir =
     (if frame = LLMFullResponseStartFrame
      then (s\<lparr>accumulator := [], is_accumulating := True\<rparr>, [])
      else if isinstance_TextFrame frame \<and> is_accumulating s
      then (s\<lparr>accumulator := accumulator s @ frame_text frame\<rparr>, [])
      else if frame = LLMFullResponseEndFrame
      then (let cleaned_text = strip (accumulator s)
            in (s\<lparr>is_accumulating := False, accumulator := []\<rparr>,
                if cleaned_text \<noteq> []
                then [(OutputTransportMessageFrame (rtvi_message cleaned_text), dir)]
                else []))
      else (s, [(frame, dir)]))"

definition aggregator_step :: "aggregator_state \<Rightarrow> frame \<times> direction \<Rightarrow> aggregator_state \<times> pushed" where
  "aggregator_step s e = (case e of (frame, dir) \<Rightarrow>
     LLMResponseToRTVIConverter_process_frame s frame dir)"

text \<open>
  The invariant of the aggregator: when it is not accumulating, its accumulator
  is the empty string.
\<close>

definition closed_is_empty :: "aggregator_state \<Rightarrow> bool" where
  "closed_is_empty s \<longleftrightarrow> (\<not> is_accumulating s \<longrightarrow> accumulator s = [])"

section \<open>Client messages\<close>

text \<open>
  The messages of \<open>protocol/messages.py\<close>. A model whose \<open>type\<close> is a \<open>Literal\<close> has
  that one value in the field, so the constructor stands for it.
  \<open>STTProviderSelection\<close> and \<open>LLMProviderSelection\<close> are declared in
  \<open>protocol/providers.py\<close>: the provider types are the parameters \<open>'s\<close> and \<open>'l\<close>, and
  their validation is a parameter of the functions below (\<open>None\<close> when it fails).
\<close>

datatype error = ValidationError

datatype 's SetSTTProviderData = SetSTTProviderData 's

datatype 'l SetLLMProviderData = SetLLMProviderData 'l

datatype ('s, 'l) client_message =
    StartRecordingMessage
  | StopRecordingMessage
  | SetSTTProviderMessage "'s SetSTTProviderData"
  | SetLLMProviderMessage "'l SetLLMProviderData"
  | UnknownClientMessage string "(string \<times> json) list"

text \<open>
  Validation of a payload against a model: the input is a dict, a required field
  that is absent or a field whose value its type refuses is a \<open>ValidationError\<close>,
  and fields the model does not declare are ignored.
\<close>

definition SetSTTProviderData_validate ::
  "(json \<Rightarrow> 's option) \<Rightarrow> json \<Rightarrow> error + 's SetSTTProviderData" where
  "SetSTTProviderData_validate stt v =
     (case v of
        JDict d \<Rightarrow>
          (case map_of d ''provider'' of
             None \<Rightarrow> Inl ValidationError
           | Some p \<Rightarrow>
               (case stt p of
                  None \<Rightarrow> Inl ValidationError
                | Some x \<Rightarrow> Inr (SetSTTProviderData x)))
      | _ \<Rightarrow> Inl ValidationError)"

definition SetLLMProviderData_validate ::
  "(json \<Rightarrow> 'l option) \<Rightarrow> json \<Rightarrow> error + 'l SetLLMProviderData" where
  "SetLLMProviderData_validate llm v =
     (case v of
        JDict d \<Rightarrow>
          (case map_of d ''provider'' of
             None \<Rightarrow> Inl ValidationError
           | Some p \<Rightarrow>
               (case llm p of
                  None \<Rightarrow> Inl ValidationError
                | Some x \<Rightarrow> Inr (SetLLMProviderData x)))
      | _ \<Rightarrow> Inl ValidationError)"

text \<open>
  \<open>ClientMessage.model_validate\<close>: the union is discriminated on \<open>type\<close>. The tag
  selects one model, which alone validates the payload; a tag that is absent, not
  a string or not one of the four is a \<open>ValidationError\<close>.
\<close>

definition ClientMessage_model_validate ::
  "(json \<Rightarrow> 's option) \<Rightarrow> (json \<Rightarrow> 'l option) \<Rightarrow> (string \<times> json) list
     \<Rightarrow> error + ('s, 'l) client_message" where
  "ClientMessage_model_validate stt llm raw =
     (case map_of raw ''type'' of
        Some (JStr t) \<Rightarrow>
          (if t = ''start-recording'' then Inr StartRecordingMessage
           else if t = ''stop-recording'' then Inr StopRecordingMessage
           else if t = ''set-stt-provider'' then
             (case map_of raw ''data'' of
                None \<Rightarrow> Inl ValidationError
              | Some v \<Rightarrow>
                  (case SetSTTProviderData_validate stt v of
                     Inl e \<Rightarrow> Inl e
                   | Inr d \<Rightarrow> Inr (SetSTTProviderMessage d)))
           else if t = ''set-llm-provider'' then
             (case map_of raw ''data'' of
                None \<Rightarrow> Inl ValidationError
              | Some v \<Rightarrow>
                  (case SetLLMProviderData_validate llm v of
                     Inl e \<Rightarrow> Inl e
                   | Inr d \<Rightarrow> Inr (SetLLMProviderMessage d)))
           else Inl ValidationError)
      | _ \<Rightarrow> Inl ValidationError)"

text \<open>
  The constructor \<open>UnknownClientMessage(type=..., raw=...)\<close> validates its
  arguments as every model does: \<open>type: str\<close> takes a string and refuses any other
  value, \<open>None\<close> included; \<open>raw: dict[str, Any]\<close> takes every dict with string keys.
\<close>

definition UnknownClientMessage_init ::
  "json \<Rightarrow> (string \<times> json) list \<Rightarrow> error + ('s, 'l) client_message" where
  "UnknownClientMessage_init type' raw =
     (case type' of
        JStr t \<Rightarrow> Inr (UnknownClientMessage t raw)
      | _ \<Rightarrow> Inl ValidationError)"

text \<open>
  \<open>parse_client_message\<close>: \<open>Inl\<close> is an exception that leaves the function. The
  handler of \<open>ValidationError\<close> calls the constructor outside any \<open>try\<close>.
\<close>

definition parse_client_message ::
  "(json \<Rightarrow> 's option) \<Rightarrow> (json \<Rightarrow> 'l option) \<Rightarrow> (string \<times> json) list
     \<Rightarrow> error + ('s, 'l) client_message" where
  "parse_client_message stt llm raw =
     (case ClientMessage_model_validate stt llm raw of
        Inr root \<Rightarrow> Inr root
      | Inl ValidationError \<Rightarrow>
          UnknownClientMessage_init (dict_get raw ''type'' (JStr [])) raw)"

section \<open>Running a processor\<close>

lemma strip_Nil: "strip [] = []"
  by (simp add: strip_def lstrip_def rstrip_def)

lemma process_frames_append:
  "process_frames step s (xs @ ys) =
     (case process_frames step s xs of (s', o1) \<Rightarrow>
        (case process_frames step s' ys of (s'', o2) \<Rightarrow> (s'', o1 @ o2)))"
  by (induction xs arbitrary: s) (simp_all split: prod.splits)

section \<open>The transcription buffer\<close>

lemma message_type_nested: "message_type (nested_signal sig) = JStr sig"
  by (simp add: message_type_def nested_signal_def dict_get_def)

lemma message_type_flat:
  "sig \<noteq> ''client-message'' \<Longrightarrow> message_type (flat_signal sig) = JStr sig"
  by (simp add: message_type_def flat_signal_def dict_get_def)

lemma start_recording_resets:
  "message_type m = JStr ''start-recording'' \<Longrightarrow>
   TranscriptionBufferProcessor_process_frame now s (InputTransportMessageFrame m) dir =
     (s\<lparr>buffer := [], last_user_id := ''user'', last_language := None\<rparr>, [])"
  by (simp add: TranscriptionBufferProcessor_process_frame_def)

text \<open>
  C8. A start-recording signal is idempotent: from every state of the buffer, one
  start-recording message and two consecutive ones leave the buffer in the same
  state, which has an empty text, the user id \<open>user\<close> and no language, and neither
  run pushes a frame. The two messages may come at different times, in different
  directions and in different envelopes.
\<close>

theorem start_recording_idempotent:
  assumes "message_type m1 = JStr ''start-recording''"
      and "message_type m2 = JStr ''start-recording''"
  shows "process_frames buffer_step s [(t1, InputTransportMessageFrame m1, d1)] =
           (\<lparr>buffer = [], last_user_id = ''user'', last_language = None\<rparr>, [])
       \<and> process_frames buffer_step s
           [(t1, InputTransportMessageFrame m1, d1), (t2, InputTransportMessageFrame m2, d2)] =
           process_frames buffer_step s [(t1, InputTransportMessageFrame m1, d1)]"
  using assms by (cases s) (simp add: buffer_step_def start_recording_resets)

theorem start_recording_idempotent_witness:
  "message_type (nested_signal ''start-recording'') = JStr ''start-recording''
   \<and> message_type (flat_signal ''start-recording'') = JStr ''start-recording''
   \<and> process_frames buffer_step
        \<lparr>buffer = ''hello '', last_user_id = ''alice'', last_language = Some ''en''\<rparr>
        [(''t1'', InputTransportMessageFrame (nested_signal ''start-recording''), DOWNSTREAM),
         (''t2'', InputTransportMessageFrame (flat_signal ''start-recording''), DOWNSTREAM)] =
      (\<lparr>buffer = [], last_user_id = ''user'', last_language = None\<rparr>, [])"
proof -
  have n: "message_type (nested_signal ''start-recording'') = JStr ''start-recording''"
    by (rule message_type_nested)
  have f: "message_type (flat_signal ''start-recording'') = JStr ''start-recording''"
    by (rule message_type_flat) simp
  note r = start_recording_idempotent [OF n f,
      of "\<lparr>buffer = ''hello '', last_user_id = ''alice'', last_language = Some ''en''\<rparr>"
         "''t1''" DOWNSTREAM "''t2''" DOWNSTREAM]
  from r have "process_frames buffer_step
        \<lparr>buffer = ''hello '', last_user_id = ''alice'', last_language = Some ''en''\<rparr>
        [(''t1'', InputTransportMessageFrame (nested_signal ''start-recording''), DOWNSTREAM),
         (''t2'', InputTransportMessageFrame (flat_signal ''start-recording''), DOWNSTREAM)] =
      (\<lparr>buffer = [], last_user_id = ''user'', last_language = None\<rparr>, [])"
    by (elim conjE) (rule trans)
  with n f show ?thesis by (intro conjI)
qed

lemma buffer_step_simp:
  "buffer_step s (now, f, dir) = TranscriptionBufferProcessor_process_frame now s f dir"
  by (simp add: buffer_step_def)

lemma event_frame_simp: "event_frame (now, f, dir) = f"
  by (simp add: event_frame_def)

lemma recorded_Nil: "recorded [] = []"
  by (simp add: recorded_def)

lemma recorded_Cons:
  "recorded (e # evs) =
     (if frame_text (event_frame e) \<noteq> [] then event_frame e # recorded evs else recorded evs)"
  by (simp add: recorded_def)

lemma recorded_none:
  "recorded evs = [] \<Longrightarrow> concat (map (\<lambda>e. frame_text (event_frame e)) evs) = []"
  by (induction evs) (simp_all add: recorded_Nil recorded_Cons split: if_splits)

lemma stop_recording_flushes:
  "message_type m = JStr ''stop-recording'' \<Longrightarrow>
   TranscriptionBufferProcessor_process_frame now s (InputTransportMessageFrame m) dir =
     (if strip (buffer s) \<noteq> []
      then (s\<lparr>buffer := []\<rparr>,
            [(TranscriptionFrame (strip (buffer s)) (last_user_id s) now (last_language s), dir)])
      else (s, []))"
  by (simp add: TranscriptionBufferProcessor_process_frame_def)

lemma fragment_buffered:
  "isinstance_TranscriptionFrame f \<Longrightarrow>
   TranscriptionBufferProcessor_process_frame now s f dir =
     (if frame_text f \<noteq> []
      then (s\<lparr>buffer := buffer s @ frame_text f, last_user_id := frame_user_id f,
               last_language := frame_language f\<rparr>, [])
      else (s, []))"
  by (cases f) (simp_all add: TranscriptionBufferProcessor_process_frame_def)

lemma fragments_accumulate:
  "\<forall>e\<in>set evs. isinstance_TranscriptionFrame (event_frame e) \<Longrightarrow>
   process_frames buffer_step s evs =
     (\<lparr>buffer = buffer s @ concat (map (\<lambda>e. frame_text (event_frame e)) evs),
       last_user_id = (if recorded evs = [] then last_user_id s
                       else frame_user_id (last (recorded evs))),
       last_language = (if recorded evs = [] then last_language s
                        else frame_language (last (recorded evs)))\<rparr>, [])"
proof (induction evs arbitrary: s)
  case Nil
  then show ?case by (simp add: recorded_Nil)
next
  case (Cons e evs)
  obtain now f dir where e: "e = (now, f, dir)" by (cases e)
  from Cons.prems have f: "isinstance_TranscriptionFrame f"
    and rest: "\<forall>e\<in>set evs. isinstance_TranscriptionFrame (event_frame e)"
    by (simp_all add: e event_frame_simp)
  show ?case
    using f by (simp add: e buffer_step_simp fragment_buffered Cons.IH [OF rest]
        event_frame_simp recorded_Cons)
qed

text \<open>
  C1. Let the buffer hold no text, as after a reset, and let it receive fragments
  F1..Fn and then a stop-recording message at time \<open>now\<close>. If the concatenation
  F1.text + ... + Fn.text, with nothing between the texts, is not empty once
  stripped, the whole run pushes exactly one frame: a transcription frame with
  that stripped text, the time \<open>now\<close>, and the user id and language of the last
  fragment whose metadata was recorded. If it is empty, the run pushes nothing.
\<close>

theorem stop_emits_consolidated:
  assumes "buffer s = []"
      and "\<forall>e\<in>set evs. isinstance_TranscriptionFrame (event_frame e)"
      and "message_type m = JStr ''stop-recording''"
  shows "snd (process_frames buffer_step s (evs @ [(now, InputTransportMessageFrame m, dir)])) =
           (if strip (concat (map (\<lambda>e. frame_text (event_frame e)) evs)) \<noteq> []
            then [(TranscriptionFrame
                     (strip (concat (map (\<lambda>e. frame_text (event_frame e)) evs)))
                     (frame_user_id (last (recorded evs))) now
                     (frame_language (last (recorded evs))), dir)]
            else [])"
proof -
  have r: "strip (concat (map (\<lambda>e. frame_text (event_frame e)) evs)) \<noteq> [] \<Longrightarrow> recorded evs \<noteq> []"
    using strip_Nil recorded_none by fastforce
  show ?thesis
    using r by (simp add: process_frames_append fragments_accumulate [OF assms(2)] assms(1)
        buffer_step_simp stop_recording_flushes [OF assms(3)])
qed


theorem stop_emits_consolidated_witness:
  "buffer TranscriptionBufferProcessor_init = []
   \<and> list_all (\<lambda>e. isinstance_TranscriptionFrame (event_frame e))
        [(''t1'', TranscriptionFrame ''um so '' ''alice'' ''t1'' None, DOWNSTREAM),
         (''t2'', TranscriptionFrame ''basically I was '' ''bob'' ''t2'' (Some ''en''), DOWNSTREAM),
         (''t3'', TranscriptionFrame [] ''carol'' ''t3'' None, DOWNSTREAM),
         (''t4'', TranscriptionFrame ''thinking '' ''dave'' ''t4'' (Some ''fr''), DOWNSTREAM)]
   \<and> message_type (nested_signal ''stop-recording'') = JStr ''stop-recording''
   \<and> snd (process_frames buffer_step TranscriptionBufferProcessor_init
        [(''t1'', TranscriptionFrame ''um so '' ''alice'' ''t1'' None, DOWNSTREAM),
         (''t2'', TranscriptionFrame ''basically I was '' ''bob'' ''t2'' (Some ''en''), DOWNSTREAM),
         (''t3'', TranscriptionFrame [] ''carol'' ''t3'' None, DOWNSTREAM),
         (''t4'', TranscriptionFrame ''thinking '' ''dave'' ''t4'' (Some ''fr''), DOWNSTREAM),
         (''t5'', InputTransportMessageFrame (nested_signal ''stop-recording''), DOWNSTREAM)]) =
      [(TranscriptionFrame ''um so basically I was thinking'' ''dave'' ''t5'' (Some ''fr''),
        DOWNSTREAM)]"
proof -
  let ?evs = "[(''t1'', TranscriptionFrame ''um so '' ''alice'' ''t1'' None, DOWNSTREAM),
                (''t2'', TranscriptionFrame ''basically I was '' ''bob'' ''t2'' (Some ''en''), DOWNSTREAM),
                (''t3'', TranscriptionFrame [] ''carol'' ''t3'' None, DOWNSTREAM),
                (''t4'', TranscriptionFrame ''thinking '' ''dave'' ''t4'' (Some ''fr''), DOWNSTREAM)]"
  have b: "buffer TranscriptionBufferProcessor_init = []"
    by (simp add: TranscriptionBufferProcessor_init_def)
  have a: "\<forall>e\<in>set ?evs. isinstance_TranscriptionFrame (event_frame e)"
    by (simp add: event_frame_def)
  have m: "message_type (nested_signal ''stop-recording'') = JStr ''stop-recording''"
    by (rule message_type_nested)
  have t: "strip (concat (map (\<lambda>e. frame_text (event_frame e)) ?evs)) =
             ''um so basically I was thinking''"
    by (simp add: event_frame_def strip_def lstrip_def rstrip_def isspace_def)
  have r: "last (recorded ?evs) = TranscriptionFrame ''thinking '' ''dave'' ''t4'' (Some ''fr'')"
    by (simp add: recorded_def event_frame_def)
  have "snd (process_frames buffer_step TranscriptionBufferProcessor_init
          (?evs @ [(''t5'', InputTransportMessageFrame (nested_signal ''stop-recording''), DOWNSTREAM)])) =
        [(TranscriptionFrame ''um so basically I was thinking'' ''dave'' ''t5'' (Some ''fr''),
          DOWNSTREAM)]"
    unfolding stop_emits_consolidated [OF b a m, of "''t5''" DOWNSTREAM] t r by simp
  moreover have "list_all (\<lambda>e. isinstance_TranscriptionFrame (event_frame e)) ?evs"
    using a by (simp only: list_all_iff)
  ultimately show ?thesis using b m by simp
qed


section \<open>Fragments\<close>

text \<open>
  C3, as stated, fails: a fragment whose text is one space is whitespace-only, and
  the buffer appends the space and records the fragment's user id and language.
\<close>

theorem whitespace_fragment_counterexample:
  "TranscriptionBufferProcessor_process_frame ''t1'' TranscriptionBufferProcessor_init
     (TranscriptionFrame '' '' ''alice'' ''t0'' (Some ''en'')) DOWNSTREAM =
     (\<lparr>buffer = '' '', last_user_id = ''alice'', last_language = Some ''en''\<rparr>, [])
   \<and> strip '' '' = []
   \<and> TranscriptionBufferProcessor_process_frame ''t1'' TranscriptionBufferProcessor_init
        (TranscriptionFrame '' '' ''alice'' ''t0'' (Some ''en'')) DOWNSTREAM \<noteq>
      (TranscriptionBufferProcessor_init, [])"
  by (simp add: TranscriptionBufferProcessor_process_frame_def
      TranscriptionBufferProcessor_init_def strip_def lstrip_def rstrip_def isspace_def)

text \<open>
  C3, amended. A fragment whose text is empty leaves the buffer, the last user id
  and the last language as they are. Every other fragment, a whitespace-only one
  included, has its text appended verbatim and its user id and language recorded.
  No fragment is pushed on.
\<close>

theorem fragment_handling:
  "(text' = [] \<longrightarrow>
      TranscriptionBufferProcessor_process_frame now s (TranscriptionFrame text' uid ts lang) dir =
        (s, []))
   \<and> (text' \<noteq> [] \<longrightarrow>
      TranscriptionBufferProcessor_process_frame now s (TranscriptionFrame text' uid ts lang) dir =
        (\<lparr>buffer = buffer s @ text', last_user_id = uid, last_language = lang\<rparr>, []))"
  by (cases s) (simp add: TranscriptionBufferProcessor_process_frame_def)

theorem fragment_handling_witness:
  "TranscriptionBufferProcessor_process_frame ''t1''
      \<lparr>buffer = ''um'', last_user_id = ''bob'', last_language = None\<rparr>
      (TranscriptionFrame [] ''alice'' ''t0'' (Some ''en'')) UPSTREAM =
     (\<lparr>buffer = ''um'', last_user_id = ''bob'', last_language = None\<rparr>, [])
   \<and> TranscriptionBufferProcessor_process_frame ''t1''
      \<lparr>buffer = ''um'', last_user_id = ''bob'', last_language = None\<rparr>
      (TranscriptionFrame '' so'' ''alice'' ''t0'' (Some ''en'')) UPSTREAM =
     (\<lparr>buffer = ''um so'', last_user_id = ''alice'', last_language = Some ''en''\<rparr>, [])"
  using fragment_handling [of "[]" "''t1''"
          "\<lparr>buffer = ''um'', last_user_id = ''bob'', last_language = None\<rparr>"
          "''alice''" "''t0''" "Some ''en''" UPSTREAM]
        fragment_handling [of "'' so''" "''t1''"
          "\<lparr>buffer = ''um'', last_user_id = ''bob'', last_language = None\<rparr>"
          "''alice''" "''t0''" "Some ''en''" UPSTREAM]
  by simp

text \<open>
  C9. A stop-recording message that finds a buffer which is empty once stripped
  pushes nothing and leaves the whole state as it is: the text, whitespace
  included, the last user id and the last language.
\<close>

theorem empty_flush_keeps_state:
  assumes "message_type m = JStr ''stop-recording''"
      and "strip (buffer s) = []"
  shows "TranscriptionBufferProcessor_process_frame now s (InputTransportMessageFrame m) dir =
           (s, [])"
  using assms by (simp add: stop_recording_flushes)

theorem empty_flush_keeps_state_witness:
  "message_type (flat_signal ''stop-recording'') = JStr ''stop-recording''
   \<and> strip (buffer \<lparr>buffer = ''  '', last_user_id = ''alice'', last_language = Some ''en''\<rparr>) = []
   \<and> TranscriptionBufferProcessor_process_frame ''t1''
        \<lparr>buffer = ''  '', last_user_id = ''alice'', last_language = Some ''en''\<rparr>
        (InputTransportMessageFrame (flat_signal ''stop-recording'')) DOWNSTREAM =
      (\<lparr>buffer = ''  '', last_user_id = ''alice'', last_language = Some ''en''\<rparr>, [])"
proof -
  have m: "message_type (flat_signal ''stop-recording'') = JStr ''stop-recording''"
    by (rule message_type_flat) simp
  have e: "strip (buffer \<lparr>buffer = ''  '', last_user_id = ''alice'', last_language = Some ''en''\<rparr>) = []"
    by (simp add: strip_def lstrip_def rstrip_def isspace_def)
  from m e empty_flush_keeps_state [OF m e, of "''t1''" DOWNSTREAM]
  show ?thesis by (intro conjI)
qed

section \<open>Control signals\<close>

lemma message_type_extractSignal:
  "message_type (JDict m) = (case extractSignal m of None \<Rightarrow> JNull | Some v \<Rightarrow> v)"
  by (auto simp: message_type_def extractSignal_def dict_get_def Let_def
      split: option.splits json.splits)

lemma other_signal_passes:
  "message_type m \<noteq> JStr ''start-recording'' \<Longrightarrow> message_type m \<noteq> JStr ''stop-recording'' \<Longrightarrow>
   TranscriptionBufferProcessor_process_frame now s (InputTransportMessageFrame m) dir =
     (s, [(InputTransportMessageFrame m, dir)])"
  by (simp add: TranscriptionBufferProcessor_process_frame_def)

text \<open>
  C6. For a message that is a dict, the message type the buffer extracts is the
  signal of \<open>extractSignal\<close>: the field \<open>t\<close> of the nested \<open>data\<close> when the outer type is
  \<open>client-message\<close>, the outer type otherwise. The signal \<open>start-recording\<close> resets
  the buffer, \<open>stop-recording\<close> flushes it, and a message with any other signal, or
  with none, is pushed on unchanged and leaves the state as it is.
\<close>

theorem control_signal_extraction:
  "message_type (JDict m) = (case extractSignal m of None \<Rightarrow> JNull | Some v \<Rightarrow> v)
   \<and> (extractSignal m = Some (JStr ''start-recording'') \<longrightarrow>
        TranscriptionBufferProcessor_process_frame now s (InputTransportMessageFrame (JDict m)) dir =
          (\<lparr>buffer = [], last_user_id = ''user'', last_language = None\<rparr>, []))
   \<and> (extractSignal m = Some (JStr ''stop-recording'') \<longrightarrow>
        TranscriptionBufferProcessor_process_frame now s (InputTransportMessageFrame (JDict m)) dir =
          (if strip (buffer s) \<noteq> []
           then (s\<lparr>buffer := []\<rparr>,
                 [(TranscriptionFrame (strip (buffer s)) (last_user_id s) now (last_language s),
                   dir)])
           else (s, [])))
   \<and> (extractSignal m \<noteq> Some (JStr ''start-recording'') \<and>
      extractSignal m \<noteq> Some (JStr ''stop-recording'') \<longrightarrow>
        TranscriptionBufferProcessor_process_frame now s (InputTransportMessageFrame (JDict m)) dir =
          (s, [(InputTransportMessageFrame (JDict m), dir)]))"
proof (intro conjI impI)
  show "message_type (JDict m) = (case extractSignal m of None \<Rightarrow> JNull | Some v \<Rightarrow> v)"
    by (rule message_type_extractSignal)
next
  assume "extractSignal m = Some (JStr ''start-recording'')"
  then have "message_type (JDict m) = JStr ''start-recording''"
    by (simp add: message_type_extractSignal)
  then show "TranscriptionBufferProcessor_process_frame now s (InputTransportMessageFrame (JDict m)) dir =
          (\<lparr>buffer = [], last_user_id = ''user'', last_language = None\<rparr>, [])"
    by (cases s) (simp add: start_recording_resets)
next
  assume "extractSignal m = Some (JStr ''stop-recording'')"
  then have "message_type (JDict m) = JStr ''stop-recording''"
    by (simp add: message_type_extractSignal)
  then show "TranscriptionBufferProcessor_process_frame now s (InputTransportMessageFrame (JDict m)) dir =
          (if strip (buffer s) \<noteq> []
           then (s\<lparr>buffer := []\<rparr>,
                 [(TranscriptionFrame (strip (buffer s)) (last_user_id s) now (last_language s),
                   dir)])
           else (s, []))"
    by (rule stop_recording_flushes)
next
  assume a: "extractSignal m \<noteq> Some (JStr ''start-recording'') \<and>
      extractSignal m \<noteq> Some (JStr ''stop-recording'')"
  then have "message_type (JDict m) \<noteq> JStr ''start-recording''"
    and "message_type (JDict m) \<noteq> JStr ''stop-recording''"
    by (auto simp: message_type_extractSignal split: option.splits)
  then show "TranscriptionBufferProcessor_process_frame now s (InputTransportMessageFrame (JDict m)) dir =
          (s, [(InputTransportMessageFrame (JDict m), dir)])"
    by (rule other_signal_passes)
qed


theorem control_signal_extraction_witness:
  "extractSignal [(''type'', JStr ''client-message''),
                  (''data'', JDict [(''t'', JStr ''start-recording''), (''d'', JDict [])])] =
     Some (JStr ''start-recording'')
   \<and> TranscriptionBufferProcessor_process_frame ''t1''
        \<lparr>buffer = ''um'', last_user_id = ''bob'', last_language = Some ''en''\<rparr>
        (InputTransportMessageFrame (nested_signal ''start-recording'')) DOWNSTREAM =
      (\<lparr>buffer = [], last_user_id = ''user'', last_language = None\<rparr>, [])
   \<and> extractSignal [(''type'', JStr ''stop-recording'')] = Some (JStr ''stop-recording'')
   \<and> TranscriptionBufferProcessor_process_frame ''t1''
        \<lparr>buffer = ''um'', last_user_id = ''bob'', last_language = Some ''en''\<rparr>
        (InputTransportMessageFrame (flat_signal ''stop-recording'')) DOWNSTREAM =
      (\<lparr>buffer = [], last_user_id = ''bob'', last_language = Some ''en''\<rparr>,
       [(TranscriptionFrame ''um'' ''bob'' ''t1'' (Some ''en''), DOWNSTREAM)])
   \<and> extractSignal [(''type'', JStr ''client-message''), (''t'', JStr ''stop-recording'')] = None
   \<and> TranscriptionBufferProcessor_process_frame ''t1''
        \<lparr>buffer = ''um'', last_user_id = ''bob'', last_language = Some ''en''\<rparr>
        (InputTransportMessageFrame
           (JDict [(''type'', JStr ''client-message''), (''t'', JStr ''stop-recording'')]))
        DOWNSTREAM =
      (\<lparr>buffer = ''um'', last_user_id = ''bob'', last_language = Some ''en''\<rparr>,
       [(InputTransportMessageFrame
           (JDict [(''type'', JStr ''client-message''), (''t'', JStr ''stop-recording'')]),
         DOWNSTREAM)])"
proof -
  let ?s = "\<lparr>buffer = ''um'', last_user_id = ''bob'', last_language = Some ''en''\<rparr>"
  let ?m1 = "[(''type'', JStr ''client-message''),
              (''data'', JDict [(''t'', JStr ''start-recording''), (''d'', JDict [])])]"
  let ?m2 = "[(''type'', JStr ''stop-recording'')]"
  let ?m3 = "[(''type'', JStr ''client-message''), (''t'', JStr ''stop-recording'')]"
  have e1: "extractSignal ?m1 = Some (JStr ''start-recording'')"
    by (simp add: extractSignal_def)
  have e2: "extractSignal ?m2 = Some (JStr ''stop-recording'')"
    by (simp add: extractSignal_def)
  have e3: "extractSignal ?m3 = None"
    by (simp add: extractSignal_def)
  have st: "strip (buffer ?s) = ''um''"
    by (simp add: strip_def lstrip_def rstrip_def isspace_def)
  have r1: "TranscriptionBufferProcessor_process_frame ''t1'' ?s
        (InputTransportMessageFrame (nested_signal ''start-recording'')) DOWNSTREAM =
      (\<lparr>buffer = [], last_user_id = ''user'', last_language = None\<rparr>, [])"
    using control_signal_extraction [of ?m1 "''t1''" ?s DOWNSTREAM] e1
    by (simp add: nested_signal_def)
  have r2: "TranscriptionBufferProcessor_process_frame ''t1'' ?s
        (InputTransportMessageFrame (flat_signal ''stop-recording'')) DOWNSTREAM =
      (\<lparr>buffer = [], last_user_id = ''bob'', last_language = Some ''en''\<rparr>,
       [(TranscriptionFrame ''um'' ''bob'' ''t1'' (Some ''en''), DOWNSTREAM)])"
    using control_signal_extraction [of ?m2 "''t1''" ?s DOWNSTREAM] e2 st
    by (simp add: flat_signal_def)
  have r3: "TranscriptionBufferProcessor_process_frame ''t1'' ?s
        (InputTransportMessageFrame (JDict ?m3)) DOWNSTREAM =
      (?s, [(InputTransportMessageFrame (JDict ?m3), DOWNSTREAM)])"
    using control_signal_extraction [of ?m3 "''t1''" ?s DOWNSTREAM] e3
    by simp
  from e1 r1 e2 r2 e3 r3 show ?thesis by (intro conjI)
qed

section \<open>The cleanup request\<close>

text \<open>
  C7. A transcription frame whose text is empty once stripped is dropped: the
  converter pushes nothing. Any other transcription frame gives exactly one
  context frame, whose messages are the cleanup prompt as the system message and
  the text of the frame, verbatim, as the user message. A frame that is not a
  transcription frame is pushed on unchanged.
\<close>

theorem converter_behaviour:
  "(strip text' = [] \<longrightarrow>
      TranscriptionToLLMConverter_process_frame (TranscriptionFrame text' uid ts lang) dir = [])
   \<and> (strip text' \<noteq> [] \<longrightarrow>
      TranscriptionToLLMConverter_process_frame (TranscriptionFrame text' uid ts lang) dir =
        [(OpenAILLMContextFrame
            [JDict [(''role'', JStr ''system''), (''content'', JStr CLEANUP_SYSTEM_PROMPT)],
             JDict [(''role'', JStr ''user''), (''content'', JStr text')]], dir)])
   \<and> (\<not> isinstance_TranscriptionFrame frame \<longrightarrow>
      TranscriptionToLLMConverter_process_frame frame dir = [(frame, dir)])"
proof (intro conjI impI)
  assume "strip text' = []"
  then show "TranscriptionToLLMConverter_process_frame (TranscriptionFrame text' uid ts lang) dir = []"
    by (simp add: TranscriptionToLLMConverter_process_frame_def)
next
  assume "strip text' \<noteq> []"
  moreover from this have "text' \<noteq> []"
    using strip_Nil by auto
  ultimately show "TranscriptionToLLMConverter_process_frame (TranscriptionFrame text' uid ts lang) dir =
        [(OpenAILLMContextFrame
            [JDict [(''role'', JStr ''system''), (''content'', JStr CLEANUP_SYSTEM_PROMPT)],
             JDict [(''role'', JStr ''user''), (''content'', JStr text')]], dir)]"
    by (simp add: TranscriptionToLLMConverter_process_frame_def cleanup_messages_def)
next
  assume "\<not> isinstance_TranscriptionFrame frame"
  then show "TranscriptionToLLMConverter_process_frame frame dir = [(frame, dir)]"
    by (cases frame) (simp_all add: TranscriptionToLLMConverter_process_frame_def)
qed

theorem converter_behaviour_witness:
  "strip ''   '' = []
   \<and> TranscriptionToLLMConverter_process_frame
        (TranscriptionFrame ''   '' ''alice'' ''t0'' None) DOWNSTREAM = []
   \<and> strip '' um so '' \<noteq> []
   \<and> TranscriptionToLLMConverter_process_frame
        (TranscriptionFrame '' um so '' ''alice'' ''t0'' None) DOWNSTREAM =
      [(OpenAILLMContextFrame
          [JDict [(''role'', JStr ''system''), (''content'', JStr CLEANUP_SYSTEM_PROMPT)],
           JDict [(''role'', JStr ''user''), (''content'', JStr '' um so '')]], DOWNSTREAM)]
   \<and> \<not> isinstance_TranscriptionFrame (TextFrame ''um'')
   \<and> TranscriptionToLLMConverter_process_frame (TextFrame ''um'') UPSTREAM =
      [(TextFrame ''um'', UPSTREAM)]"
proof -
  have a: "strip ''   '' = []"
    by (simp add: strip_def lstrip_def rstrip_def isspace_def)
  have b: "strip '' um so '' \<noteq> []"
    by (simp add: strip_def lstrip_def rstrip_def isspace_def)
  have c: "\<not> isinstance_TranscriptionFrame (TextFrame ''um'')"
    by simp
  from a b c
    converter_behaviour [of "''   ''" "''alice''" "''t0''" None DOWNSTREAM "TextFrame ''um''"]
    converter_behaviour [of "'' um so ''" "''alice''" "''t0''" None DOWNSTREAM "TextFrame ''um''"]
    converter_behaviour [of "[]" "[]" "[]" None UPSTREAM "TextFrame ''um''"]
  show ?thesis by blast
qed


section \<open>The response aggregator\<close>

lemma aggregator_step_simp:
  "aggregator_step s (f, dir) = LLMResponseToRTVIConverter_process_frame s f dir"
  by (simp add: aggregator_step_def)

lemma chunk_appended:
  "isinstance_TextFrame f \<Longrightarrow> is_accumulating s \<Longrightarrow>
   LLMResponseToRTVIConverter_process_frame s f dir =
     (s\<lparr>accumulator := accumulator s @ frame_text f\<rparr>, [])"
  by (cases f) (simp_all add: LLMResponseToRTVIConverter_process_frame_def)

lemma chunks_accumulate:
  "\<forall>e\<in>set chunks. isinstance_TextFrame (fst e) \<Longrightarrow> is_accumulating s \<Longrightarrow>
   process_frames aggregator_step s chunks =
     (s\<lparr>accumulator := accumulator s @ concat (map (\<lambda>e. frame_text (fst e)) chunks)\<rparr>, [])"
proof (induction chunks arbitrary: s)
  case Nil
  then show ?case by simp
next
  case (Cons e chunks)
  obtain f dir where e: "e = (f, dir)" by (cases e)
  from Cons.prems have f: "isinstance_TextFrame f"
    and rest: "\<forall>e\<in>set chunks. isinstance_TextFrame (fst e)"
    by (simp_all add: e)
  have acc: "is_accumulating (s\<lparr>accumulator := accumulator s @ frame_text f\<rparr>)"
    using Cons.prems(2) by simp
  show ?case
    by (simp add: e aggregator_step_simp chunk_appended [OF f Cons.prems(2)]
        Cons.IH [OF rest acc])
qed

lemma response_start:
  "LLMResponseToRTVIConverter_process_frame s LLMFullResponseStartFrame dir =
     (s\<lparr>accumulator := [], is_accumulating := True\<rparr>, [])"
  by (simp add: LLMResponseToRTVIConverter_process_frame_def)

lemma response_end:
  "LLMResponseToRTVIConverter_process_frame s LLMFullResponseEndFrame dir =
     (s\<lparr>is_accumulating := False, accumulator := []\<rparr>,
      if strip (accumulator s) \<noteq> []
      then [(OutputTransportMessageFrame (rtvi_message (strip (accumulator s))), dir)]
      else [])"
  by (simp add: LLMResponseToRTVIConverter_process_frame_def Let_def)

text \<open>
  C4. From every state, a start marker, then text chunks C1..Cn, then an end
  marker leave the aggregator with an empty accumulator and not accumulating. The
  run pushes exactly one frame when C1.text + ... + Cn.text is not empty once
  stripped: the message with label \<open>rtvi-ai\<close>, type \<open>server-message\<close> and data of type
  \<open>transcript\<close> whose text is the stripped concatenation. Otherwise it pushes nothing.
\<close>

theorem response_aggregated:
  assumes "\<forall>e\<in>set chunks. isinstance_TextFrame (fst e)"
  shows "process_frames aggregator_step s
           ((LLMFullResponseStartFrame, d0) # chunks @ [(LLMFullResponseEndFrame, d1)]) =
         (\<lparr>accumulator = [], is_accumulating = False\<rparr>,
          if strip (concat (map (\<lambda>e. frame_text (fst e)) chunks)) \<noteq> []
          then [(OutputTransportMessageFrame
                   (JDict [(''label'', JStr ''rtvi-ai''),
                           (''type'', JStr ''server-message''),
                           (''data'', JDict [(''type'', JStr ''transcript''),
                              (''text'', JStr (strip (concat (map (\<lambda>e. frame_text (fst e)) chunks))))])]),
                 d1)]
          else [])"
proof -
  obtain a b where s: "s = \<lparr>accumulator = a, is_accumulating = b\<rparr>"
    by (cases s)
  have acc: "is_accumulating \<lparr>accumulator = [], is_accumulating = True\<rparr>"
    by simp
  have run: "process_frames aggregator_step \<lparr>accumulator = [], is_accumulating = True\<rparr> chunks =
      (\<lparr>accumulator = concat (map (\<lambda>e. frame_text (fst e)) chunks), is_accumulating = True\<rparr>, [])"
    using chunks_accumulate [OF assms acc] by simp
  show ?thesis
    by (simp add: s aggregator_step_simp response_start process_frames_append run
        response_end rtvi_message_def)
qed

theorem response_aggregated_witness:
  "list_all (\<lambda>e. isinstance_TextFrame (fst e))
     [(TextFrame ''I was '', DOWNSTREAM),
      (TextFrame ''thinking we should update the readme'', DOWNSTREAM)]
   \<and> process_frames aggregator_step LLMResponseToRTVIConverter_init
        [(LLMFullResponseStartFrame, DOWNSTREAM),
         (TextFrame ''I was '', DOWNSTREAM),
         (TextFrame ''thinking we should update the readme'', DOWNSTREAM),
         (LLMFullResponseEndFrame, DOWNSTREAM)] =
      (\<lparr>accumulator = [], is_accumulating = False\<rparr>,
       [(OutputTransportMessageFrame
           (JDict [(''label'', JStr ''rtvi-ai''),
                   (''type'', JStr ''server-message''),
                   (''data'', JDict [(''type'', JStr ''transcript''),
                      (''text'', JStr ''I was thinking we should update the readme'')])]),
         DOWNSTREAM)])"
proof -
  let ?chunks = "[(TextFrame ''I was '', DOWNSTREAM),
                  (TextFrame ''thinking we should update the readme'', DOWNSTREAM)]"
  have a: "\<forall>e\<in>set ?chunks. isinstance_TextFrame (fst e)"
    by simp
  have t: "strip (concat (map (\<lambda>e. frame_text (fst e)) ?chunks)) =
             ''I was thinking we should update the readme''"
    by (simp add: strip_def lstrip_def rstrip_def isspace_def)
  have "process_frames aggregator_step LLMResponseToRTVIConverter_init
          ((LLMFullResponseStartFrame, DOWNSTREAM) # ?chunks @ [(LLMFullResponseEndFrame, DOWNSTREAM)]) =
        (\<lparr>accumulator = [], is_accumulating = False\<rparr>,
         [(OutputTransportMessageFrame
             (JDict [(''label'', JStr ''rtvi-ai''),
                     (''type'', JStr ''server-message''),
                     (''data'', JDict [(''type'', JStr ''transcript''),
                        (''text'', JStr ''I was thinking we should update the readme'')])]),
           DOWNSTREAM)])"
    unfolding response_aggregated [OF a, of LLMResponseToRTVIConverter_init DOWNSTREAM DOWNSTREAM] t
    by simp
  moreover have "list_all (\<lambda>e. isinstance_TextFrame (fst e)) ?chunks"
    using a by (simp only: list_all_iff)
  ultimately show ?thesis by simp
qed

lemma closed_is_empty_init: "closed_is_empty LLMResponseToRTVIConverter_init"
  by (simp add: closed_is_empty_def LLMResponseToRTVIConverter_init_def)

lemma closed_is_empty_step:
  "closed_is_empty s \<Longrightarrow>
   closed_is_empty (fst (LLMResponseToRTVIConverter_process_frame s frame dir))"
  by (simp add: closed_is_empty_def LLMResponseToRTVIConverter_process_frame_def Let_def)

lemma fst_process_frames_Cons:
  "fst (process_frames step s (e # es)) = fst (process_frames step (fst (step s e)) es)"
  by (simp split: prod.splits)

lemma closed_is_empty_run:
  "closed_is_empty s \<Longrightarrow> closed_is_empty (fst (process_frames aggregator_step s evs))"
proof (induction evs arbitrary: s)
  case Nil
  then show ?case by simp
next
  case (Cons e evs)
  obtain f dir where e: "e = (f, dir)" by (cases e)
  have "closed_is_empty (fst (aggregator_step s e))"
    using closed_is_empty_step [OF Cons.prems] by (simp add: e aggregator_step_simp)
  from Cons.IH [OF this] show ?case
    by (simp only: fst_process_frames_Cons)
qed

text \<open>
  C10. An aggregator that is not accumulating has an empty accumulator: this holds
  of the initial state, every frame preserves it, and so it holds after every run
  from the initial state.
\<close>

theorem aggregator_invariant:
  "closed_is_empty LLMResponseToRTVIConverter_init
   \<and> (closed_is_empty s \<longrightarrow>
        closed_is_empty (fst (LLMResponseToRTVIConverter_process_frame s frame dir)))
   \<and> closed_is_empty (fst (process_frames aggregator_step LLMResponseToRTVIConverter_init evs))"
  using closed_is_empty_init closed_is_empty_step closed_is_empty_run by blast

theorem aggregator_invariant_witness:
  "closed_is_empty \<lparr>accumulator = ''abc'', is_accumulating = True\<rparr>
   \<and> closed_is_empty (fst (LLMResponseToRTVIConverter_process_frame
        \<lparr>accumulator = ''abc'', is_accumulating = True\<rparr> LLMFullResponseEndFrame DOWNSTREAM))
   \<and> fst (LLMResponseToRTVIConverter_process_frame
        \<lparr>accumulator = ''abc'', is_accumulating = True\<rparr> LLMFullResponseEndFrame DOWNSTREAM) =
      \<lparr>accumulator = [], is_accumulating = False\<rparr>
   \<and> closed_is_empty (fst (process_frames aggregator_step LLMResponseToRTVIConverter_init
        [(LLMFullResponseStartFrame, DOWNSTREAM), (TextFrame ''abc'', DOWNSTREAM),
         (LLMFullResponseEndFrame, DOWNSTREAM), (TextFrame ''late'', DOWNSTREAM)]))"
proof -
  have a: "closed_is_empty \<lparr>accumulator = ''abc'', is_accumulating = True\<rparr>"
    by (simp add: closed_is_empty_def)
  have b: "fst (LLMResponseToRTVIConverter_process_frame
        \<lparr>accumulator = ''abc'', is_accumulating = True\<rparr> LLMFullResponseEndFrame DOWNSTREAM) =
      \<lparr>accumulator = [], is_accumulating = False\<rparr>"
    by (simp add: response_end)
  from a b
    aggregator_invariant [of "\<lparr>accumulator = ''abc'', is_accumulating = True\<rparr>"
      LLMFullResponseEndFrame DOWNSTREAM
      "[(LLMFullResponseStartFrame, DOWNSTREAM), (TextFrame ''abc'', DOWNSTREAM),
        (LLMFullResponseEndFrame, DOWNSTREAM), (TextFrame ''late'', DOWNSTREAM)]"]
  show ?thesis by blast
qed

text \<open>
  C5. In a state the aggregator can reach in which it is not accumulating, an end
  marker pushes nothing and leaves the state as it is: the accumulator is empty
  and stays so.
\<close>

theorem premature_end_is_noop:
  assumes "s = fst (process_frames aggregator_step LLMResponseToRTVIConverter_init evs)"
      and "\<not> is_accumulating s"
  shows "LLMResponseToRTVIConverter_process_frame s LLMFullResponseEndFrame dir = (s, [])
       \<and> accumulator s = []"
proof -
  have "closed_is_empty s"
    unfolding assms(1) by (rule closed_is_empty_run [OF closed_is_empty_init])
  with assms(2) have e: "accumulator s = []"
    by (simp add: closed_is_empty_def)
  with assms(2) show ?thesis
    by (simp add: response_end strip_Nil)
qed

theorem premature_end_is_noop_witness:
  "\<lparr>accumulator = [], is_accumulating = False\<rparr> =
     fst (process_frames aggregator_step LLMResponseToRTVIConverter_init
            [(LLMFullResponseStartFrame, DOWNSTREAM), (TextFrame ''abc'', DOWNSTREAM),
             (LLMFullResponseEndFrame, DOWNSTREAM)])
   \<and> \<not> is_accumulating \<lparr>accumulator = [], is_accumulating = False\<rparr>
   \<and> LLMResponseToRTVIConverter_process_frame \<lparr>accumulator = [], is_accumulating = False\<rparr>
        LLMFullResponseEndFrame UPSTREAM =
      (\<lparr>accumulator = [], is_accumulating = False\<rparr>, [])"
proof -
  have a: "\<lparr>accumulator = [], is_accumulating = False\<rparr> =
     fst (process_frames aggregator_step LLMResponseToRTVIConverter_init
            [(LLMFullResponseStartFrame, DOWNSTREAM), (TextFrame ''abc'', DOWNSTREAM),
             (LLMFullResponseEndFrame, DOWNSTREAM)])"
    by (simp add: aggregator_step_simp LLMResponseToRTVIConverter_process_frame_def
        LLMResponseToRTVIConverter_init_def Let_def)
  have b: "\<not> is_accumulating \<lparr>accumulator = [], is_accumulating = False\<rparr>"
    by simp
  have c: "LLMResponseToRTVIConverter_process_frame \<lparr>accumulator = [], is_accumulating = False\<rparr>
        LLMFullResponseEndFrame UPSTREAM =
      (\<lparr>accumulator = [], is_accumulating = False\<rparr>, [])"
    using premature_end_is_noop [OF a b, of UPSTREAM] by (rule conjunct1)
  from a b c show ?thesis by (intro conjI)
qed


section \<open>Parsing client messages\<close>

lemma model_validate_recognized:
  "ClientMessage_model_validate stt llm raw = Inr m \<Longrightarrow>
   m = StartRecordingMessage \<or> m = StopRecordingMessage
   \<or> (\<exists>d. m = SetSTTProviderMessage d) \<or> (\<exists>d. m = SetLLMProviderMessage d)"
  by (auto simp: ClientMessage_model_validate_def
      split: option.splits json.splits if_splits sum.splits)

lemma parse_client_message_str_type:
  assumes "map_of raw ''type'' = None \<or> (\<exists>t. map_of raw ''type'' = Some (JStr t))"
  shows "\<exists>m. parse_client_message stt llm raw = Inr m \<and>
           (m = StartRecordingMessage \<or> m = StopRecordingMessage
            \<or> (\<exists>d. m = SetSTTProviderMessage d) \<or> (\<exists>d. m = SetLLMProviderMessage d)
            \<or> m = UnknownClientMessage
                  (case map_of raw ''type'' of Some (JStr t) \<Rightarrow> t | _ \<Rightarrow> []) raw)"
proof (cases "ClientMessage_model_validate stt llm raw")
  case (Inr m)
  then show ?thesis
    using model_validate_recognized [OF Inr] by (auto simp: parse_client_message_def)
next
  case (Inl e)
  then show ?thesis
    using assms
    by (cases e) (auto simp: parse_client_message_def UnknownClientMessage_init_def dict_get_def)
qed

text \<open>
  C2 fails on the payload whose \<open>type\<close> is \<open>None\<close>: the union refuses the tag, and
  in the handler the constructor of \<open>UnknownClientMessage\<close> refuses \<open>None\<close> for
  \<open>type: str\<close>, so \<open>parse_client_message\<close> ends with a \<open>ValidationError\<close>.
\<close>

theorem parse_client_message_raises:
  "ClientMessage_model_validate stt llm [(''type'', JNull)] = Inl ValidationError
   \<and> parse_client_message stt llm [(''type'', JNull)] = Inl ValidationError"
  by (simp add: parse_client_message_def ClientMessage_model_validate_def
      UnknownClientMessage_init_def dict_get_def)

end
